theory Spec2Isabelle
  imports Complex_Main "HOL-Library.Multiset" "HOL-Library.Char_ord" "HOL-Library.List_Lexorder"
begin

section \<open>QueueCTL: a persistent job queue with retries and a dead-letter queue\<close>

text \<open>
  A shallow embedding of \<^verbatim>\<open>queuectl/job.py\<close>, \<^verbatim>\<open>queuectl/queue_manager.py\<close>,
  \<^verbatim>\<open>queuectl/config.py\<close>, \<^verbatim>\<open>queuectl/worker.py\<close> and the \<^verbatim>\<open>enqueue\<close> command of
  \<^verbatim>\<open>queuectl/cli.py\<close>.

  Conventions of the embedding.
  \<^item> Job identifiers have type \<open>'id\<close> and timestamps (ISO-8601 texts, compared as
    texts by SQLite) have type \<open>'ts\<close>; both stand for non-empty texts. Python treats
    the empty text like \<open>None\<close> in \<^verbatim>\<open>id or str(uuid.uuid4())\<close>; here \<open>None\<close> of an
    optional identifier or timestamp stands for both.
  \<^item> The job states are the five members of \<^verbatim>\<open>Job.STATES\<close>.
  \<^item> \<^verbatim>\<open>attempts\<close> is a natural number, the other integer fields are unbounded integers.
  \<^item> Everything the code takes from its platform (the clock, the uuid generator,
    date arithmetic, \<^verbatim>\<open>json.loads\<close>, \<^verbatim>\<open>int\<close>, the subprocess, the log directory) is a
    field of a \<open>platform\<close> record that the operations receive.
  \<^item> The \<^verbatim>\<open>jobs\<close> table is the list of its rows in insertion (rowid) order.
  \<^item> Exceptions are values: an operation that can raise returns \<open>error + result\<close>.
    The exceptions modelled are those that the inputs of the code decide: constraint
    violations of the table, \<^verbatim>\<open>int\<close> of a configured text, a date out of range, a log
    file that cannot be opened, and the exceptions of the subprocess call. The
    console accepts every line the worker prints, and SQLite itself does not fail.
  \<^item> \<open>started_at\<close> of a claimed job is a text that \<^verbatim>\<open>isoformat\<close> wrote at the claim, so
    \<^verbatim>\<open>fromisoformat\<close> in \<^verbatim>\<open>mark_completed\<close> does not fail on it.
\<close>

subsection \<open>Jobs (\<^verbatim>\<open>job.py\<close>)\<close>

datatype job_state = Pending | Processing | Completed | Failed | Dead

record ('id, 'ts) Job =
  job_id :: 'id
  command :: "string option"
  state :: job_state
  attempts :: nat
  max_retries :: int
  created_at :: 'ts
  updated_at :: 'ts
  next_retry_at :: "'ts option"
  error_message :: "string option"
  job_output :: "string option"
  priority :: int
  timeout :: int
  run_at :: "'ts option"
  started_at :: "'ts option"
  completed_at :: "'ts option"
  execution_time :: "real option"

text \<open>
  The dictionaries that \<^verbatim>\<open>to_dict\<close> builds and \<^verbatim>\<open>from_dict\<close> reads. For each of the
  sixteen keys the outer \<open>option\<close> says whether the key is present; for the keys whose
  value may be \<^verbatim>\<open>None\<close> the inner \<open>option\<close> is that value.
\<close>

record ('id, 'ts) job_dict =
  d_id :: "'id option option"
  d_command :: "string option option"
  d_state :: "job_state option"
  d_attempts :: "nat option"
  d_max_retries :: "int option"
  d_created_at :: "'ts option option"
  d_updated_at :: "'ts option option"
  d_next_retry_at :: "'ts option option"
  d_error_message :: "string option option"
  d_output :: "string option option"
  d_priority :: "int option"
  d_timeout :: "int option"
  d_run_at :: "'ts option option"
  d_started_at :: "'ts option option"
  d_completed_at :: "'ts option option"
  d_execution_time :: "real option option"

text \<open>JSON values as \<^verbatim>\<open>json.loads\<close> returns them; an object is a job dictionary.\<close>

datatype ('id, 'ts) json =
    JObj "('id, 'ts) job_dict"
  | JArr "('id, 'ts) json list"
  | JStr string
  | JScalar

text \<open>
  What \<^verbatim>\<open>subprocess.run(..., text=True)\<close> did: the process exited and its output was
  decoded (return code, stdout, stderr); the process exited with a return code but
  decoding its output raised \<^verbatim>\<open>UnicodeDecodeError\<close> (the text of the exception); the
  timeout expired; or another exception was raised (its text).
\<close>

datatype run_outcome =
    Exited int string string
  | Undecodable int string
  | TimeoutExpired
  | OtherException string

datatype error =
    IntegrityError | ValueError | TypeError | AttributeError | OverflowError | FileNotFoundError

record ('id, 'ts) platform =
  uuid4 :: 'id
  utcnow :: "nat \<Rightarrow> 'ts"
  time :: "nat \<Rightarrow> real"
  add_seconds :: "'ts \<Rightarrow> int \<Rightarrow> 'ts option"
  total_seconds :: "'ts \<Rightarrow> 'ts \<Rightarrow> real"
  within_last_day :: "'ts \<Rightarrow> bool"
  json_loads :: "string \<Rightarrow> ('id, 'ts) json option"
  py_int :: "string \<Rightarrow> int option"
  subprocess_run :: "string option \<Rightarrow> int \<Rightarrow> run_outcome"
  log_error :: "'id \<Rightarrow> error option"

text \<open>
  \<^item> \<open>uuid4\<close>: \<^verbatim>\<open>str(uuid.uuid4())\<close>.
  \<^item> \<open>utcnow P k\<close>: the text \<^verbatim>\<open>datetime.utcnow().isoformat()\<close> at the \<open>k\<close>-th reading of
    the clock within one operation (\<open>k = 0\<close> is the first); \<open>time P k\<close>: the same for
    \<^verbatim>\<open>time.time()\<close>.
  \<^item> \<open>add_seconds P t d\<close>: \<^verbatim>\<open>(t + timedelta(seconds=d)).isoformat()\<close>, \<open>None\<close> for the
    \<^verbatim>\<open>OverflowError\<close> that Python raises when \<open>d\<close> is outside the range of \<^verbatim>\<open>timedelta\<close>
    or the sum is outside the range of \<^verbatim>\<open>datetime\<close> (years 1 to 9999).
  \<^item> \<open>total_seconds P e s\<close>: \<^verbatim>\<open>(fromisoformat(e) - fromisoformat(s)).total_seconds()\<close>.
  \<^item> \<open>within_last_day P t\<close>: SQLite's \<^verbatim>\<open>datetime(t) > datetime('now', '-1 day')\<close>.
  \<^item> \<open>json_loads P s\<close>: \<^verbatim>\<open>json.loads(s)\<close>, \<open>None\<close> for a \<^verbatim>\<open>JSONDecodeError\<close>.
  \<^item> \<open>py_int P s\<close>: \<^verbatim>\<open>int(s)\<close> of a text, \<open>None\<close> for a \<^verbatim>\<open>ValueError\<close>.
  \<^item> \<open>subprocess_run P c t\<close>: the outcome of running command \<open>c\<close> with timeout \<open>t\<close>.
  \<^item> \<open>log_error P i\<close>: the exception that opening and writing the log file of job \<open>i\<close>
    raises (\<^verbatim>\<open>FileNotFoundError\<close> for an id with a slash, say), \<open>None\<close> when the file is
    written.
\<close>

definition tick :: "('id, 'ts) platform \<Rightarrow> ('id, 'ts) platform" where
  \<comment> \<open>The platform after one reading of the clock.\<close>
  "tick P = P\<lparr>utcnow := (\<lambda>k. utcnow P (Suc k))\<rparr>"

definition Job_init ::
  "('id, 'ts) platform \<Rightarrow> 'id option \<Rightarrow> string option \<Rightarrow> job_state \<Rightarrow> nat \<Rightarrow> int \<Rightarrow>
   'ts option \<Rightarrow> 'ts option \<Rightarrow> 'ts option \<Rightarrow> string option \<Rightarrow> string option \<Rightarrow>
   int \<Rightarrow> int \<Rightarrow> 'ts option \<Rightarrow> 'ts option \<Rightarrow> 'ts option \<Rightarrow> real option \<Rightarrow> ('id, 'ts) Job" where
  \<comment> \<open>\<^verbatim>\<open>Job.__init__\<close>, the arguments in the order of its signature.\<close>
  "Job_init P a_id a_command a_state a_attempts a_max_retries a_created_at a_updated_at
      a_next_retry_at a_error_message a_output a_priority a_timeout a_run_at a_started_at
      a_completed_at a_execution_time =
     \<lparr> job_id = (case a_id of Some i \<Rightarrow> i | None \<Rightarrow> uuid4 P),
       command = a_command,
       state = a_state,
       attempts = a_attempts,
       max_retries = a_max_retries,
       created_at = (case a_created_at of Some t \<Rightarrow> t | None \<Rightarrow> utcnow P 0),
       updated_at =
         (case a_updated_at of
            Some t \<Rightarrow> t
          | None \<Rightarrow> utcnow P (case a_created_at of None \<Rightarrow> 1 | Some _ \<Rightarrow> 0)),
       next_retry_at = a_next_retry_at,
       error_message = a_error_message,
       job_output = a_output,
       priority = a_priority,
       timeout = a_timeout,
       run_at = a_run_at,
       started_at = a_started_at,
       completed_at = a_completed_at,
       execution_time = a_execution_time \<rparr>"

definition dict_get :: "'a option option \<Rightarrow> 'a option" where
  \<comment> \<open>\<^verbatim>\<open>data.get(key)\<close>: \<^verbatim>\<open>None\<close> when the key is absent.\<close>
  "dict_get e = (case e of None \<Rightarrow> None | Some v \<Rightarrow> v)"

definition dict_get_default :: "'a option \<Rightarrow> 'a \<Rightarrow> 'a" where
  \<comment> \<open>\<^verbatim>\<open>data.get(key, default)\<close>.\<close>
  "dict_get_default e dflt = (case e of None \<Rightarrow> dflt | Some v \<Rightarrow> v)"

definition from_dict :: "('id, 'ts) platform \<Rightarrow> ('id, 'ts) job_dict \<Rightarrow> ('id, 'ts) Job" where
  "from_dict P data =
     Job_init P
       (dict_get (d_id data))
       (dict_get (d_command data))
       (dict_get_default (d_state data) Pending)
       (dict_get_default (d_attempts data) 0)
       (dict_get_default (d_max_retries data) 3)
       (dict_get (d_created_at data))
       (dict_get (d_updated_at data))
       (dict_get (d_next_retry_at data))
       (dict_get (d_error_message data))
       (dict_get (d_output data))
       (dict_get_default (d_priority data) 0)
       (dict_get_default (d_timeout data) 300)
       (dict_get (d_run_at data))
       (dict_get (d_started_at data))
       (dict_get (d_completed_at data))
       (dict_get (d_execution_time data))"

definition from_db_row :: "('id, 'ts) platform \<Rightarrow> ('id, 'ts) Job \<Rightarrow> ('id, 'ts) Job" where
  \<comment> \<open>A row has all sixteen columns, so \<^verbatim>\<open>safe_get\<close> never falls back to its default.\<close>
  "from_db_row P row =
     Job_init P
       (Some (job_id row)) (command row) (state row) (attempts row) (max_retries row)
       (Some (created_at row)) (Some (updated_at row)) (next_retry_at row)
       (error_message row) (job_output row) (priority row) (timeout row) (run_at row)
       (started_at row) (completed_at row) (execution_time row)"

definition to_dict :: "('id, 'ts) Job \<Rightarrow> ('id, 'ts) job_dict" where
  "to_dict j =
     \<lparr> d_id = Some (Some (job_id j)),
       d_command = Some (command j),
       d_state = Some (state j),
       d_attempts = Some (attempts j),
       d_max_retries = Some (max_retries j),
       d_created_at = Some (Some (created_at j)),
       d_updated_at = Some (Some (updated_at j)),
       d_next_retry_at = Some (next_retry_at j),
       d_error_message = Some (error_message j),
       d_output = Some (job_output j),
       d_priority = Some (priority j),
       d_timeout = Some (timeout j),
       d_run_at = Some (run_at j),
       d_started_at = Some (started_at j),
       d_completed_at = Some (completed_at j),
       d_execution_time = Some (execution_time j) \<rparr>"

definition calculate_retry_delay :: "int \<Rightarrow> ('id, 'ts) Job \<Rightarrow> int" where
  "calculate_retry_delay base j = base ^ attempts j"

definition should_retry :: "('id, 'ts) Job \<Rightarrow> bool" where
  "should_retry j = (int (attempts j) < max_retries j)"

definition is_ready_to_run :: "('id, 'ts::linorder) platform \<Rightarrow> ('id, 'ts) Job \<Rightarrow> bool" where
  "is_ready_to_run P j = (case run_at j of None \<Rightarrow> True | Some r \<Rightarrow> r \<le> utcnow P 0)"

text \<open>
  \<^verbatim>\<open>mark_for_retry\<close> changes the job object in place. When the date of the next retry
  cannot be computed, the \<^verbatim>\<open>OverflowError\<close> leaves the method after \<open>attempts\<close>,
  \<open>error_message\<close>, \<open>updated_at\<close> and \<open>state\<close> were assigned and before
  \<open>next_retry_at\<close> is; the caller does not catch it and stores nothing, so the result
  is the error alone.
\<close>

definition mark_for_retry ::
  "('id, 'ts) platform \<Rightarrow> string \<Rightarrow> int \<Rightarrow> ('id, 'ts) Job \<Rightarrow> error + ('id, 'ts) Job" where
  "mark_for_retry P error_msg backoff_base j =
     (let j1 = j\<lparr>attempts := attempts j + 1,
                 error_message := Some error_msg,
                 updated_at := utcnow P 0\<rparr>
      in if should_retry j1
         then (let j2 = j1\<lparr>state := Failed\<rparr>;
                   delay_seconds = calculate_retry_delay backoff_base j2
               in case add_seconds P (utcnow P 1) delay_seconds of
                    None \<Rightarrow> Inl OverflowError
                  | Some t \<Rightarrow> Inr (j2\<lparr>next_retry_at := Some t\<rparr>))
         else Inr (j1\<lparr>state := Dead, next_retry_at := None\<rparr>))"

definition mark_processing :: "('id, 'ts) platform \<Rightarrow> ('id, 'ts) Job \<Rightarrow> ('id, 'ts) Job" where
  "mark_processing P j =
     j\<lparr>state := Processing, started_at := Some (utcnow P 0), updated_at := utcnow P 0\<rparr>"

definition mark_completed ::
  "('id, 'ts) platform \<Rightarrow> string option \<Rightarrow> ('id, 'ts) Job \<Rightarrow> ('id, 'ts) Job" where
  "mark_completed P out j =
     (let j1 = j\<lparr>state := Completed,
                 job_output := out,
                 completed_at := Some (utcnow P 0),
                 updated_at := utcnow P 0\<rparr>
      in case started_at j1 of
           None \<Rightarrow> j1
         | Some s \<Rightarrow> j1\<lparr>execution_time := Some (total_seconds P (utcnow P 0) s)\<rparr>)"

subsection \<open>Printing integers\<close>

function show_nat :: "nat \<Rightarrow> string" where
  "show_nat n =
     (if n < 10 then [char_of (48 + n)]
      else show_nat (n div 10) @ [char_of (48 + n mod 10)])"
  by pat_completeness auto
termination
  by (relation "measure (\<lambda>n. n)") auto

declare show_nat.simps [simp del]

definition show_int :: "int \<Rightarrow> string" where
  \<comment> \<open>\<^verbatim>\<open>str(i)\<close>, as an f-string prints an integer.\<close>
  "show_int i = (if i < 0 then CHR ''-'' # show_nat (nat (- i)) else show_nat (nat i))"

subsection \<open>Configuration (\<^verbatim>\<open>config.py\<close>)\<close>

type_synonym config_table = "string \<rightharpoonup> string"

definition DEFAULTS :: "(string \<times> string) list" where
  "DEFAULTS =
     [(''max_retries'', ''3''), (''backoff_base'', ''2''),
      (''worker_poll_interval'', ''2''), (''job_timeout'', ''300'')]"

definition init_defaults :: "config_table \<Rightarrow> config_table" where
  \<comment> \<open>\<^verbatim>\<open>Config.__init__\<close>: every default whose key has no row is inserted.\<close>
  "init_defaults cfg =
     fold (\<lambda>(key, v) c. if c key = None then c(key \<mapsto> v) else c) DEFAULTS cfg"

text \<open>What \<^verbatim>\<open>Config.get\<close> returns: the text of a row, or the caller's default.\<close>

datatype config_value = CText string | CInt int | CNone

definition truthy :: "config_value \<Rightarrow> bool" where
  "truthy v = (case v of CText s \<Rightarrow> s \<noteq> [] | CInt i \<Rightarrow> i \<noteq> 0 | CNone \<Rightarrow> False)"

definition Config_get :: "config_table \<Rightarrow> string \<Rightarrow> config_value \<Rightarrow> config_value" where
  "Config_get cfg key dflt =
     (case cfg key of
        Some v \<Rightarrow> CText v
      | None \<Rightarrow>
          if truthy dflt then dflt
          else (case map_of DEFAULTS key of Some v \<Rightarrow> CText v | None \<Rightarrow> CNone))"

definition int_of_value :: "('id, 'ts) platform \<Rightarrow> config_value \<Rightarrow> error + int" where
  \<comment> \<open>\<^verbatim>\<open>int(v)\<close>.\<close>
  "int_of_value P v =
     (case v of
        CText s \<Rightarrow> (case py_int P s of None \<Rightarrow> Inl ValueError | Some i \<Rightarrow> Inr i)
      | CInt i \<Rightarrow> Inr i
      | CNone \<Rightarrow> Inl TypeError)"

subsection \<open>The queue manager (\<^verbatim>\<open>queue_manager.py\<close>)\<close>

text \<open>
  \<^verbatim>\<open>ORDER BY\<close> is a stable insertion sort along a relation \<open>le\<close> (\<open>le a b\<close>: row \<open>a\<close>
  may stand before row \<open>b\<close>): rows that tie keep the order of the table scan, which is
  what SQLite's sorter does (SQL itself leaves the order of ties open).
\<close>

fun insert_by :: "('a \<Rightarrow> 'a \<Rightarrow> bool) \<Rightarrow> 'a \<Rightarrow> 'a list \<Rightarrow> 'a list" where
  "insert_by le x [] = [x]"
| "insert_by le x (y # ys) = (if le x y then x # y # ys else y # insert_by le x ys)"

fun order_by :: "('a \<Rightarrow> 'a \<Rightarrow> bool) \<Rightarrow> 'a list \<Rightarrow> 'a list" where
  "order_by le [] = []"
| "order_by le (x # xs) = insert_by le x (order_by le xs)"

definition fetch_one :: "'a list \<Rightarrow> 'a option" where
  "fetch_one rows = (case rows of [] \<Rightarrow> None | r # _ \<Rightarrow> Some r)"

definition enqueue ::
  "('id, 'ts) Job list \<Rightarrow> ('id, 'ts) Job \<Rightarrow> error + ('id, 'ts) Job \<times> ('id, 'ts) Job list" where
  \<comment> \<open>\<^verbatim>\<open>INSERT\<close>: \<^verbatim>\<open>command\<close> is \<^verbatim>\<open>NOT NULL\<close> and \<^verbatim>\<open>id\<close> is the primary key.\<close>
  "enqueue db job =
     (if command job = None \<or> job_id job \<in> job_id ` set db then Inl IntegrityError
      else Inr (job, db @ [job]))"

definition eligible :: "'ts::linorder \<Rightarrow> ('id, 'ts) Job \<Rightarrow> bool" where
  \<comment> \<open>The \<^verbatim>\<open>WHERE\<close> clause of \<^verbatim>\<open>get_next_job\<close>.\<close>
  "eligible now r =
     ((state r = Pending \<or> state r = Failed) \<and>
      (case next_retry_at r of None \<Rightarrow> True | Some t \<Rightarrow> t \<le> now) \<and>
      (case run_at r of None \<Rightarrow> True | Some t \<Rightarrow> t \<le> now))"

definition claim_order :: "('id, 'ts::linorder) Job \<Rightarrow> ('id, 'ts) Job \<Rightarrow> bool" where
  \<comment> \<open>\<^verbatim>\<open>ORDER BY priority DESC, created_at ASC\<close>.\<close>
  "claim_order a b =
     (priority b < priority a \<or> (priority a = priority b \<and> created_at a \<le> created_at b))"

definition list_order :: "('id, 'ts::linorder) Job \<Rightarrow> ('id, 'ts) Job \<Rightarrow> bool" where
  \<comment> \<open>\<^verbatim>\<open>ORDER BY priority DESC, created_at DESC\<close>.\<close>
  "list_order a b =
     (priority b < priority a \<or> (priority a = priority b \<and> created_at b \<le> created_at a))"

definition created_desc :: "('id, 'ts::linorder) Job \<Rightarrow> ('id, 'ts) Job \<Rightarrow> bool" where
  \<comment> \<open>\<^verbatim>\<open>ORDER BY created_at DESC\<close>.\<close>
  "created_desc a b = (created_at b \<le> created_at a)"

definition set_columns :: "('id, 'ts) Job \<Rightarrow> ('id, 'ts) Job \<Rightarrow> ('id, 'ts) Job" where
  \<comment> \<open>The \<^verbatim>\<open>SET\<close> list of \<^verbatim>\<open>update_job\<close>: every column but \<^verbatim>\<open>id\<close> and \<^verbatim>\<open>created_at\<close>.\<close>
  "set_columns job r =
     r\<lparr>command := command job, state := state job, attempts := attempts job,
       max_retries := max_retries job, updated_at := updated_at job,
       next_retry_at := next_retry_at job, error_message := error_message job,
       job_output := job_output job, priority := priority job, timeout := timeout job,
       run_at := run_at job, started_at := started_at job,
       completed_at := completed_at job, execution_time := execution_time job\<rparr>"

definition update_job ::
  "('id, 'ts) Job list \<Rightarrow> ('id, 'ts) Job \<Rightarrow> error + ('id, 'ts) Job list" where
  \<comment> \<open>\<^verbatim>\<open>UPDATE jobs SET ... WHERE id=?\<close>; a null command breaks \<^verbatim>\<open>NOT NULL\<close> on a row
      that matches.\<close>
  "update_job db job =
     (if job_id job \<in> job_id ` set db \<and> command job = None then Inl IntegrityError
      else Inr (map (\<lambda>r. if job_id r = job_id job then set_columns job r else r) db))"

definition get_next_job ::
  "('id, 'ts::linorder) platform \<Rightarrow> ('id, 'ts) Job list \<Rightarrow>
   error + ('id, 'ts) Job option \<times> ('id, 'ts) Job list" where
  "get_next_job P db =
     (let now = utcnow P 0
      in case fetch_one (order_by claim_order (filter (eligible now) db)) of
           None \<Rightarrow> Inr (None, db)
         | Some row \<Rightarrow>
             (let job = mark_processing (tick P) (from_db_row P row)
              in case update_job db job of
                   Inl e \<Rightarrow> Inl e
                 | Inr db' \<Rightarrow> Inr (Some job, db')))"

definition get_job ::
  "('id, 'ts) platform \<Rightarrow> ('id, 'ts) Job list \<Rightarrow> 'id \<Rightarrow> ('id, 'ts) Job option" where
  "get_job P db jid =
     (case fetch_one (filter (\<lambda>r. job_id r = jid) db) of
        None \<Rightarrow> None
      | Some row \<Rightarrow> Some (from_db_row P row))"

definition list_jobs ::
  "('id, 'ts::linorder) platform \<Rightarrow> ('id, 'ts) Job list \<Rightarrow> job_state option \<Rightarrow> int option \<Rightarrow>
   ('id, 'ts) Job list" where
  "list_jobs P db st pr =
     (let rows =
        (case (st, pr) of
           (Some s, Some p) \<Rightarrow>
             order_by list_order (filter (\<lambda>r. state r = s \<and> priority r = p) db)
         | (Some s, None) \<Rightarrow> order_by list_order (filter (\<lambda>r. state r = s) db)
         | (None, Some p) \<Rightarrow> order_by created_desc (filter (\<lambda>r. priority r = p) db)
         | (None, None) \<Rightarrow> order_by list_order db)
      in map (from_db_row P) rows)"

definition STATES :: "job_state list" where
  "STATES = [Pending, Processing, Completed, Failed, Dead]"

definition get_stats :: "('id, 'ts) Job list \<Rightarrow> (job_state \<times> nat) list" where
  "get_stats db = map (\<lambda>s. (s, length (filter (\<lambda>r. state r = s) db))) STATES"

record metrics =
  avg_execution_time :: real
  success_rate :: real
  jobs_last_24h :: nat
  priority_dist :: "(int \<times> nat) list"

definition sql_avg :: "real list \<Rightarrow> real option" where
  \<comment> \<open>\<^verbatim>\<open>AVG\<close> over the non-null values; null when there is none.\<close>
  "sql_avg xs = (if xs = [] then None else Some (sum_list xs / real (length xs)))"

definition get_metrics :: "('id, 'ts) platform \<Rightarrow> ('id, 'ts) Job list \<Rightarrow> metrics" where
  "get_metrics P db =
     (let avg_time = sql_avg (List.map_filter execution_time db);
          total = length db;
          completed = length (filter (\<lambda>r. state r = Completed) db)
      in \<lparr> avg_execution_time =
             (case avg_time of None \<Rightarrow> 0 | Some a \<Rightarrow> if a \<noteq> 0 then a else 0),
           success_rate = (if total > 0 then real completed / real total * 100 else 0),
           jobs_last_24h = length (filter (\<lambda>r. within_last_day P (created_at r)) db),
           priority_dist =
             map (\<lambda>p. (p, length (filter (\<lambda>r. priority r = p) db)))
               (rev (sort (remdups (map priority db)))) \<rparr>)"

definition list_dlq :: "('id, 'ts::linorder) platform \<Rightarrow> ('id, 'ts) Job list \<Rightarrow> ('id, 'ts) Job list" where
  "list_dlq P db = list_jobs P db (Some Dead) None"

definition retry_dlq_job ::
  "('id, 'ts) platform \<Rightarrow> ('id, 'ts) Job list \<Rightarrow> 'id \<Rightarrow> error + bool \<times> ('id, 'ts) Job list" where
  "retry_dlq_job P db jid =
     (case get_job P db jid of
        None \<Rightarrow> Inr (False, db)
      | Some job \<Rightarrow>
          if state job \<noteq> Dead then Inr (False, db)
          else
            (let job' = job\<lparr>state := Pending, attempts := 0, next_retry_at := None,
                            error_message := None, updated_at := utcnow P 0\<rparr>
             in case update_job db job' of
                  Inl e \<Rightarrow> Inl e
                | Inr db' \<Rightarrow> Inr (True, db')))"

definition valid_store :: "('id, 'ts) Job list \<Rightarrow> bool" where
  \<comment> \<open>The constraints of the \<^verbatim>\<open>jobs\<close> table: \<^verbatim>\<open>id\<close> is its primary key and \<^verbatim>\<open>command\<close> is
      \<^verbatim>\<open>NOT NULL\<close>.\<close>
  "valid_store db = (distinct (map job_id db) \<and> None \<notin> command ` set db)"

subsection \<open>The worker (\<^verbatim>\<open>worker.py\<close>)\<close>

text \<open>The database: the \<^verbatim>\<open>jobs\<close> table and the \<^verbatim>\<open>config\<close> table.\<close>

record ('id, 'ts) database =
  jobs :: "('id, 'ts) Job list"
  config :: config_table

record exec_result =
  r_success :: bool
  r_output :: string
  r_error :: string
  r_return_code :: int

definition execute_command ::
  "('id, 'ts) platform \<Rightarrow> string option \<Rightarrow> int \<Rightarrow> exec_result" where
  \<comment> \<open>A \<^verbatim>\<open>UnicodeDecodeError\<close> is caught by \<^verbatim>\<open>except Exception\<close> like any other.\<close>
  "execute_command P cmd tmo =
     (case subprocess_run P cmd tmo of
        Exited rc out err \<Rightarrow>
          \<lparr>r_success = (rc = 0), r_output = out, r_error = err, r_return_code = rc\<rparr>
      | Undecodable rc msg \<Rightarrow>
          \<lparr>r_success = False, r_output = [], r_error = msg, r_return_code = - 1\<rparr>
      | TimeoutExpired \<Rightarrow>
          \<lparr>r_success = False, r_output = [],
            r_error = ''Command timed out after '' @ show_int tmo @ '' seconds'',
            r_return_code = - 1\<rparr>
      | OtherException msg \<Rightarrow>
          \<lparr>r_success = False, r_output = [], r_error = msg, r_return_code = - 1\<rparr>)"

text \<open>
  The log files of \<^verbatim>\<open>data/logs\<close>, one per job id: the header (job id and the clock
  when the file was written) and the two captured streams.
\<close>

record ('id, 'ts) log_file =
  log_job_id :: 'id
  log_timestamp :: 'ts
  log_stdout :: string
  log_stderr :: string

type_synonym ('id, 'ts) logs = "'id \<rightharpoonup> ('id, 'ts) log_file"

definition save_job_output ::
  "('id, 'ts) platform \<Rightarrow> ('id, 'ts) logs \<Rightarrow> 'id \<Rightarrow> string \<Rightarrow> string \<Rightarrow>
   error + ('id, 'ts) logs" where
  \<comment> \<open>\<^verbatim>\<open>QueueManager.save_job_output\<close>: the file is opened for writing and replaced;
      the method reads the clock once.\<close>
  "save_job_output P logs jid out err =
     (case log_error P jid of
        Some e \<Rightarrow> Inl e
      | None \<Rightarrow>
          Inr (logs(jid \<mapsto> \<lparr>log_job_id = jid, log_timestamp = utcnow P 0,
                              log_stdout = out, log_stderr = err\<rparr>)))"

definition finish_job ::
  "('id, 'ts) platform \<Rightarrow> config_table \<Rightarrow> ('id, 'ts) logs \<Rightarrow> ('id, 'ts) Job \<Rightarrow>
   (error + ('id, 'ts) Job) \<times> ('id, 'ts) logs" where
  \<comment> \<open>\<^verbatim>\<open>process_job\<close> up to its last line: the command is run, its output is logged
      and the job object is changed. An exception of \<^verbatim>\<open>save_job_output\<close>, of \<^verbatim>\<open>int\<close> or
      of \<^verbatim>\<open>mark_for_retry\<close> leaves \<^verbatim>\<open>process_job\<close>. The state change reads the clock
      after \<^verbatim>\<open>save_job_output\<close> has read it.\<close>
  "finish_job P cfg logs job =
     (let start_time = time P 0;
          result = execute_command P (command job) (timeout job);
          elapsed = time P 1 - start_time
      in case save_job_output P logs (job_id job) (r_output result) (r_error result) of
           Inl e \<Rightarrow> (Inl e, logs)
         | Inr logs' \<Rightarrow>
             if r_success result
             then (Inr ((mark_completed (tick P) (Some (take 500 (r_output result))) job)
                          \<lparr>execution_time := Some elapsed\<rparr>),
                   logs')
             else
               (let error_msg =
                  (if r_error result \<noteq> [] then r_error result
                   else ''Exit code: '' @ show_int (r_return_code result))
                in case int_of_value P (Config_get cfg ''backoff_base'' (CInt 2)) of
                     Inl e \<Rightarrow> (Inl e, logs')
                   | Inr backoff_base \<Rightarrow>
                       (mark_for_retry (tick P) error_msg backoff_base job, logs')))"

definition process_job ::
  "('id, 'ts) platform \<Rightarrow> ('id, 'ts) database \<Rightarrow> ('id, 'ts) logs \<Rightarrow> ('id, 'ts) Job \<Rightarrow>
   (error + ('id, 'ts) Job) \<times> ('id, 'ts) database \<times> ('id, 'ts) logs" where
  \<comment> \<open>The result: the exception that left the method or the job as stored, with the
      database and the log files as the method leaves them.\<close>
  "process_job P db logs job =
     (case finish_job P (config db) logs job of
        (Inl e, logs') \<Rightarrow> (Inl e, db, logs')
      | (Inr job', logs') \<Rightarrow>
          (case update_job (jobs db) job' of
             Inl e \<Rightarrow> (Inl e, db, logs')
           | Inr js \<Rightarrow> (Inr job', db\<lparr>jobs := js\<rparr>, logs')))"

subsection \<open>The \<^verbatim>\<open>enqueue\<close> command (\<^verbatim>\<open>cli.py\<close>)\<close>

fun starts_with :: "string \<Rightarrow> string \<Rightarrow> bool" where
  "starts_with [] s = True"
| "starts_with (c # cs) [] = False"
| "starts_with (c # cs) (d # ds) = (c = d \<and> starts_with cs ds)"

fun contains_text :: "string \<Rightarrow> string \<Rightarrow> bool" where
  \<comment> \<open>\<^verbatim>\<open>key in s\<close> for two texts.\<close>
  "contains_text key [] = (key = [])"
| "contains_text key (c # cs) = (starts_with key (c # cs) \<or> contains_text key cs)"

definition has_key :: "('id, 'ts) job_dict \<Rightarrow> string \<Rightarrow> bool" where
  "has_key d key =
     (if key = ''id'' then d_id d \<noteq> None
      else if key = ''command'' then d_command d \<noteq> None
      else if key = ''state'' then d_state d \<noteq> None
      else if key = ''attempts'' then d_attempts d \<noteq> None
      else if key = ''max_retries'' then d_max_retries d \<noteq> None
      else if key = ''created_at'' then d_created_at d \<noteq> None
      else if key = ''updated_at'' then d_updated_at d \<noteq> None
      else if key = ''next_retry_at'' then d_next_retry_at d \<noteq> None
      else if key = ''error_message'' then d_error_message d \<noteq> None
      else if key = ''output'' then d_output d \<noteq> None
      else if key = ''priority'' then d_priority d \<noteq> None
      else if key = ''timeout'' then d_timeout d \<noteq> None
      else if key = ''run_at'' then d_run_at d \<noteq> None
      else if key = ''started_at'' then d_started_at d \<noteq> None
      else if key = ''completed_at'' then d_completed_at d \<noteq> None
      else if key = ''execution_time'' then d_execution_time d \<noteq> None
      else False)"

definition py_in :: "string \<Rightarrow> ('id, 'ts) json \<Rightarrow> error + bool" where
  \<comment> \<open>\<^verbatim>\<open>key in data\<close>: a key of a dict, a member of a list, a part of a text; a
      \<^verbatim>\<open>TypeError\<close> on a number, a boolean or \<^verbatim>\<open>None\<close>.\<close>
  "py_in key data =
     (case data of
        JObj d \<Rightarrow> Inr (has_key d key)
      | JArr xs \<Rightarrow> Inr (JStr key \<in> set xs)
      | JStr s \<Rightarrow> Inr (contains_text key s)
      | JScalar \<Rightarrow> Inl TypeError)"

definition empty_dict :: "('id, 'ts) job_dict" where
  "empty_dict =
     \<lparr> d_id = None, d_command = None, d_state = None, d_attempts = None,
       d_max_retries = None, d_created_at = None, d_updated_at = None,
       d_next_retry_at = None, d_error_message = None, d_output = None,
       d_priority = None, d_timeout = None, d_run_at = None, d_started_at = None,
       d_completed_at = None, d_execution_time = None \<rparr>"

definition option_data ::
  "string \<Rightarrow> 'id option \<Rightarrow> int option \<Rightarrow> int \<Rightarrow> int \<Rightarrow> 'ts option \<Rightarrow> ('id, 'ts) job_dict" where
  \<comment> \<open>The dictionary built from the options when \<^verbatim>\<open>--command\<close> is given.\<close>
  "option_data cmd jid mr pr tmo ra =
     empty_dict
       \<lparr> d_id := (case jid of None \<Rightarrow> None | Some i \<Rightarrow> Some (Some i)),
         d_command := Some (Some cmd),
         d_max_retries := mr,
         d_priority := (if pr \<noteq> 0 then Some pr else None),
         d_timeout := (if tmo \<noteq> 300 then Some tmo else None),
         d_run_at := (case ra of None \<Rightarrow> None | Some t \<Rightarrow> Some (Some t)) \<rparr>"

text \<open>What the command prints: one of its three error lines, the text of an exception
  it caught, or the job it enqueued.\<close>

datatype ('id, 'ts) cli_output =
    InvalidJSON
  | MustProvide
  | CommandRequired
  | Error error
  | JobEnqueued "('id, 'ts) Job"

definition enqueue_data ::
  "('id, 'ts) platform \<Rightarrow> ('id, 'ts) database \<Rightarrow> ('id, 'ts) json \<Rightarrow>
   ('id, 'ts) cli_output \<times> ('id, 'ts) database" where
  \<comment> \<open>The command from \<^verbatim>\<open>if 'command' not in data\<close> on; an exception ends in the
      handler of the enclosing \<^verbatim>\<open>try\<close>.\<close>
  "enqueue_data P db data =
     (case py_in ''command'' data of
        Inl e \<Rightarrow> (Error e, db)
      | Inr False \<Rightarrow> (CommandRequired, db)
      | Inr True \<Rightarrow>
          (let db1 = db\<lparr>config := init_defaults (config db)\<rparr>
           in case py_in ''max_retries'' data of
                Inl e \<Rightarrow> (Error e, db1)
              | Inr has_max \<Rightarrow>
                  (case (if has_max then Inr data
                         else (case int_of_value P
                                      (Config_get (config db1) ''max_retries'' (CInt 3)) of
                                 Inl e \<Rightarrow> Inl e
                               | Inr m \<Rightarrow>
                                   (case data of
                                      JObj d \<Rightarrow> Inr (JObj (d\<lparr>d_max_retries := Some m\<rparr>))
                                    | _ \<Rightarrow> Inl TypeError))) of
                     Inl e \<Rightarrow> (Error e, db1)
                   | Inr data' \<Rightarrow>
                       (case data' of
                          JObj d \<Rightarrow>
                            (case enqueue (jobs db1) (from_dict P d) of
                               Inl e \<Rightarrow> (Error e, db1)
                             | Inr (job, js) \<Rightarrow> (JobEnqueued job, db1\<lparr>jobs := js\<rparr>))
                        | _ \<Rightarrow> (Error AttributeError, db1)))))"

definition cli_enqueue ::
  "('id, 'ts) platform \<Rightarrow> ('id, 'ts) database \<Rightarrow> string option \<Rightarrow> string option \<Rightarrow>
   'id option \<Rightarrow> int option \<Rightarrow> int \<Rightarrow> int \<Rightarrow> 'ts option \<Rightarrow>
   ('id, 'ts) cli_output \<times> ('id, 'ts) database" where
  \<comment> \<open>\<^verbatim>\<open>enqueue(job_data, command, job_id, max_retries, priority, timeout, run_at)\<close>;
      an absent or empty \<^verbatim>\<open>job_data\<close> or \<^verbatim>\<open>command\<close> is falsy.\<close>
  "cli_enqueue P db job_data cmd jid mr pr tmo ra =
     (case job_data of
        Some (c # cs) \<Rightarrow>
          (case json_loads P (c # cs) of
             None \<Rightarrow> (InvalidJSON, db)
           | Some data \<Rightarrow> enqueue_data P db data)
      | _ \<Rightarrow>
          (case cmd of
             Some (c # cs) \<Rightarrow> enqueue_data P db (JObj (option_data (c # cs) jid mr pr tmo ra))
           | _ \<Rightarrow> (MustProvide, db)))"

subsection \<open>The life of one job\<close>



subsection \<open>Orders for the sorting lemmas\<close>

definition total_preorder :: "('a \<Rightarrow> 'a \<Rightarrow> bool) \<Rightarrow> bool" where
  "total_preorder le =
     ((\<forall>a b. le a b \<or> le b a) \<and> (\<forall>a b c. le a b \<and> le b c \<longrightarrow> le a c))"

subsection \<open>Concrete platforms, jobs and stores\<close>

text \<open>
  Identifiers are texts and timestamps are whole seconds since \<^verbatim>\<open>0001-01-01T00:00:00\<close>
  in these examples. \<open>calendar_add\<close> is \<^verbatim>\<open>datetime + timedelta(seconds=d)\<close> on such
  timestamps: a \<^verbatim>\<open>timedelta\<close> has at most 999999999 days, and the last second of a
  \<^verbatim>\<open>datetime\<close> is \<^verbatim>\<open>9999-12-31T23:59:59\<close>, number 315537897599.
\<close>

definition calendar_add :: "nat \<Rightarrow> int \<Rightarrow> nat option" where
  "calendar_add t d =
     (if d < - 86399999913600 \<or> 86399999999999 < d \<or> int t + d < 0 \<or> 315537897599 < int t + d
      then None
      else Some (nat (int t + d)))"




definition empty_command_json :: string where
  \<comment> \<open>The text \<^verbatim>\<open>{"command": ""}\<close>; \<open>CHR 0x22\<close> is the double quote.\<close>
  "empty_command_json =
     ''{'' @ [CHR 0x22] @ ''command'' @ [CHR 0x22] @ '': '' @ [CHR 0x22, CHR 0x22] @ ''}''"

definition P_ok :: "(string, nat) platform" where
  \<comment> \<open>The clock reads 1000, 1001, ...; \<^verbatim>\<open>time.time()\<close> reads 50, 52, ...; every
      command prints \<^verbatim>\<open>hi\<close> and exits with code 0; the log file of an id with a slash
      cannot be opened (its directory does not exist).\<close>
  "P_ok =
     \<lparr> uuid4 = ''uuid-1'',
       utcnow = (\<lambda>k. 1000 + k),
       time = (\<lambda>k. 50 + 2 * real k),
       add_seconds = calendar_add,
       total_seconds = (\<lambda>e s. real e - real s),
       within_last_day = (\<lambda>t. 900 < t),
       json_loads =
         (\<lambda>s. if s = empty_command_json
              then Some (JObj (empty_dict\<lparr>d_command := Some (Some [])\<rparr>))
              else None),
       py_int = (\<lambda>s. if s = ''3'' then Some 3 else if s = ''2'' then Some 2 else None),
       subprocess_run = (\<lambda>c t. Exited 0 ''hi'' []),
       log_error = (\<lambda>i. if CHR ''/'' \<in> set i then Some FileNotFoundError else None) \<rparr>"

definition P_fail :: "(string, nat) platform" where
  \<comment> \<open>As \<open>P_ok\<close>, but every command exits with code 1 and prints \<^verbatim>\<open>boom\<close> on stderr.\<close>
  "P_fail = P_ok\<lparr>subprocess_run := (\<lambda>c t. Exited 1 [] ''boom'')\<rparr>"

definition P_big :: "(string, nat) platform" where
  \<comment> \<open>As \<open>P_fail\<close>, with \<^verbatim>\<open>int\<close> on the text \<^verbatim>\<open>1000000\<close>.\<close>
  "P_big = P_fail\<lparr>py_int := (\<lambda>s. if s = ''1000000'' then Some 1000000 else None)\<rparr>"



definition job_ex :: "string \<Rightarrow> int \<Rightarrow> nat \<Rightarrow> (string, nat) Job" where
  \<comment> \<open>A pending job as \<^verbatim>\<open>enqueue\<close> stores it: identifier, priority, creation time.\<close>
  "job_ex i p c =
     \<lparr> job_id = i, command = Some ''echo hi'', state = Pending, attempts = 0,
       max_retries = 3, created_at = c, updated_at = c, next_retry_at = None,
       error_message = None, job_output = None, priority = p, timeout = 300,
       run_at = None, started_at = None, completed_at = None, execution_time = None \<rparr>"

definition db_tie :: "(string, nat) Job list" where
  \<comment> \<open>Two pending jobs of equal priority and creation time; \<^verbatim>\<open>b\<close> was inserted first.\<close>
  "db_tie = [job_ex ''b'' 0 100, job_ex ''a'' 0 100]"

definition db_ex :: "(string, nat) Job list" where
  "db_ex =
     [job_ex ''low'' 0 100,
      (job_ex ''late'' 5 300)\<lparr>run_at := Some 2000\<rparr>,
      job_ex ''high'' 5 200,
      (job_ex ''gone'' 9 50)\<lparr>state := Dead, attempts := 3, error_message := Some ''boom''\<rparr>]"

definition job_running :: "(string, nat) Job" where
  \<comment> \<open>A job claimed at 997 on the clock.\<close>
  "job_running = (job_ex ''run'' 0 100)\<lparr>state := Processing, started_at := Some 997, updated_at := 997\<rparr>"





definition log_of :: "string \<Rightarrow> string \<Rightarrow> string \<Rightarrow> (string, nat) logs" where
  \<comment> \<open>One log file, written at 1000.\<close>
  "log_of i out err =
     [i \<mapsto> \<lparr>log_job_id = i, log_timestamp = 1000, log_stdout = out, log_stderr = err\<rparr>]"



definition job_second :: "(string, nat) Job" where
  \<comment> \<open>A job with \<open>max_retries = 3\<close>, claimed for its second attempt.\<close>
  "job_second = job_running\<lparr>attempts := 1, error_message := Some ''boom''\<rparr>"

definition db_big :: "(string, nat) database" where
  \<comment> \<open>After \<^verbatim>\<open>queuectl config set backoff-base 1000000\<close>.\<close>
  "db_big =
     \<lparr>jobs = [job_second],
       config = (init_defaults Map.empty)(''backoff_base'' \<mapsto> ''1000000'')\<rparr>"


definition db_empty :: "(string, nat) database" where
  "db_empty = \<lparr>jobs = [], config = Map.empty\<rparr>"

definition job_empty_command :: "(string, nat) Job" where
  \<comment> \<open>The job that \<^verbatim>\<open>enqueue '{"command": ""}'\<close> stores.\<close>
  "job_empty_command =
     \<lparr> job_id = ''uuid-1'', command = Some [], state = Pending, attempts = 0,
       max_retries = 3, created_at = 1000, updated_at = 1001, next_retry_at = None,
       error_message = None, job_output = None, priority = 0, timeout = 300,
       run_at = None, started_at = None, completed_at = None, execution_time = None \<rparr>"


section \<open>Properties\<close>

subsection \<open>Jobs\<close>

lemma from_db_row_ident: "from_db_row P row = row"
  by (simp add: from_db_row_def Job_init_def)

lemma map_from_db_row: "map (from_db_row P) rows = rows"
  by (induction rows) (simp_all add: from_db_row_ident)

text \<open>
  C6. Round trip: for every job \<open>j\<close>, whatever its sixteen fields hold,
  \<^verbatim>\<open>Job.from_dict(j.to_dict())\<close> is \<open>j\<close>, field for field: every key is present in the
  dictionary, so no default of \<^verbatim>\<open>from_dict\<close> or of the constructor is used.
\<close>

theorem from_dict_to_dict: "from_dict P (to_dict j) = j"
  by (simp add: from_dict_def to_dict_def Job_init_def dict_get_def dict_get_default_def)

text \<open>What \<^verbatim>\<open>mark_for_retry\<close> does, case by case: a retry with a date, a retry whose
  date cannot be computed, and the last attempt.\<close>

lemma mark_for_retry_cases:
  "mark_for_retry P e B j =
     (if int (attempts j + 1) < max_retries j
      then (case add_seconds P (utcnow P 1) (B ^ (attempts j + 1)) of
              None \<Rightarrow> Inl OverflowError
            | Some t \<Rightarrow>
                Inr (j\<lparr>attempts := attempts j + 1, error_message := Some e,
                       updated_at := utcnow P 0, state := Failed, next_retry_at := Some t\<rparr>))
      else Inr (j\<lparr>attempts := attempts j + 1, error_message := Some e,
                  updated_at := utcnow P 0, state := Dead, next_retry_at := None\<rparr>))"
  by (simp add: mark_for_retry_def should_retry_def calculate_retry_delay_def Let_def
      split: option.splits)

lemma mark_for_retry_frame:
  assumes "mark_for_retry P e B j = Inr j'"
  shows "job_id j' = job_id j \<and> command j' = command j \<and> max_retries j' = max_retries j \<and>
         created_at j' = created_at j \<and> priority j' = priority j \<and>
         attempts j' = attempts j + 1 \<and> error_message j' = Some e"
  using assms by (auto simp: mark_for_retry_cases split: if_splits option.splits)

text \<open>
  C2. A job with \<open>max_retries = 3\<close> that fails its second attempt while the
  backoff base is 1000000: \<open>attempts\<close> becomes 2, which is below \<open>max_retries\<close>, the
  delay is \<open>1000000 ^ 2\<close> seconds and the date of the retry lies after the year 9999.
  \<^verbatim>\<open>mark_for_retry\<close> raises \<^verbatim>\<open>OverflowError\<close> and sets no \<open>next_retry_at\<close>; the
  exception leaves \<^verbatim>\<open>process_job\<close> after the log file is written, and the row of the
  job stays as the claim left it. (Where the date can be computed, \<^verbatim>\<open>mark_for_retry\<close>
  does what the claim says: \<open>mark_for_retry_cases\<close>.)
\<close>

theorem mark_for_retry_overflow:
  "int (attempts job_second + 1) < max_retries job_second \<and>
   calendar_add 1001 (1000000 ^ (attempts job_second + 1)) = None \<and>
   mark_for_retry P_big ''boom'' 1000000 job_second = Inl OverflowError \<and>
   process_job P_big db_big Map.empty job_second =
     (Inl OverflowError, db_big, log_of ''run'' [] ''boom'')"
  by (simp add: process_job_def finish_job_def execute_command_def save_job_output_def
      mark_for_retry_cases Config_get_def int_of_value_def tick_def calendar_add_def
      log_of_def Let_def
      P_big_def P_fail_def P_ok_def db_big_def job_second_def job_running_def job_ex_def)


text \<open>On its own, \<^verbatim>\<open>mark_completed\<close> stores the difference of the two timestamps.\<close>

lemma mark_completed_execution_time:
  "started_at j = Some s \<Longrightarrow>
   execution_time (mark_completed P out j) = Some (total_seconds P (utcnow P 0) s)"
  by (simp add: mark_completed_def Let_def)

subsection \<open>Sorting\<close>

lemma mset_insert_by: "mset (insert_by le x xs) = add_mset x (mset xs)"
  by (induction xs) simp_all

lemma mset_order_by: "mset (order_by le xs) = mset xs"
  by (induction xs) (simp_all add: mset_insert_by)

lemma set_order_by: "set (order_by le xs) = set xs"
  using mset_order_by [of le xs] by (metis set_mset_mset)

lemma set_insert_by: "set (insert_by le x xs) = insert x (set xs)"
  using mset_insert_by [of le x xs] by (metis set_mset_mset set_mset_add_mset_insert)

lemma sorted_insert_by:
  assumes "total_preorder le" and "sorted_wrt le xs"
  shows "sorted_wrt le (insert_by le x xs)"
  using assms(2)
proof (induction xs)
  case Nil
  then show ?case by simp
next
  case (Cons y ys)
  show ?case
  proof (cases "le x y")
    case True
    have "\<forall>z\<in>set ys. le x z"
      using True Cons.prems assms(1) unfolding total_preorder_def by (meson sorted_wrt.simps(2))
    with True Cons.prems show ?thesis by simp
  next
    case False
    then have "le y x" using assms(1) unfolding total_preorder_def by blast
    with False Cons show ?thesis by (auto simp: set_insert_by)
  qed
qed

lemma sorted_order_by: "total_preorder le \<Longrightarrow> sorted_wrt le (order_by le xs)"
  by (induction xs) (simp_all add: sorted_insert_by)

text \<open>The first row of the sorted list: no row before it in the input may stand before
  it, and it may stand before every row after it.\<close>

lemma order_by_head:
  assumes "total_preorder le" and "order_by le xs = r # rest"
  shows "\<exists>pre post. xs = pre @ r # post \<and> (\<forall>x\<in>set pre. \<not> le x r) \<and> (\<forall>x\<in>set post. le r x)"
  using assms(2)
proof (induction xs arbitrary: r rest)
  case Nil
  then show ?case by simp
next
  case step: (Cons x xs)
  show ?case
  proof (cases "order_by le xs")
    case Nil
    then have "xs = []" using mset_order_by [of le xs] by simp
    with step.prems have "x = r" by simp
    with \<open>xs = []\<close> show ?thesis by (intro exI [of _ "[]"]) simp
  next
    case sorted_tail: (Cons r0 rest0)
    from step.IH [OF sorted_tail] obtain pre0 post0 where
      xs: "xs = pre0 @ r0 # post0" and pre0: "\<forall>y\<in>set pre0. \<not> le y r0"
      and post0: "\<forall>y\<in>set post0. le r0 y"
      by blast
    show ?thesis
    proof (cases "le x r0")
      case True
      with sorted_tail step.prems have r: "r = x" by simp
      have "\<forall>y\<in>set xs. le x y"
        using xs pre0 post0 True assms(1) unfolding total_preorder_def
        by (metis Un_iff set_ConsD set_append)
      with r show ?thesis by (intro exI [of _ "[]"] exI [of _ xs]) simp
    next
      case False
      with sorted_tail step.prems have r: "r = r0" by simp
      show ?thesis
        using xs pre0 post0 False r by (intro exI [of _ "x # pre0"] exI [of _ post0]) simp
    qed
  qed
qed

lemma total_preorder_claim_order:
  "total_preorder (claim_order :: ('id, 'ts::linorder) Job \<Rightarrow> ('id, 'ts) Job \<Rightarrow> bool)"
  unfolding total_preorder_def claim_order_def by auto

lemma total_preorder_list_order:
  "total_preorder (list_order :: ('id, 'ts::linorder) Job \<Rightarrow> ('id, 'ts) Job \<Rightarrow> bool)"
  unfolding total_preorder_def list_order_def by auto

lemma total_preorder_created_desc:
  "total_preorder (created_desc :: ('id, 'ts::linorder) Job \<Rightarrow> ('id, 'ts) Job \<Rightarrow> bool)"
  unfolding total_preorder_def created_desc_def by auto

lemma filter_eq_appendD:
  "filter Q xs = ys @ zs \<Longrightarrow> \<exists>us vs. xs = us @ vs \<and> filter Q us = ys \<and> filter Q vs = zs"
proof (induction ys arbitrary: xs)
  case Nil
  then show ?case by (intro exI [of _ "[]"] exI [of _ xs]) simp
next
  case (Cons y ys)
  then have "filter Q xs = y # (ys @ zs)" by simp
  then obtain us' vs' where xs: "xs = us' @ y # vs'" and us': "\<forall>u\<in>set us'. \<not> Q u"
    and y: "Q y" and rest: "ys @ zs = filter Q vs'"
    by (auto simp: filter_eq_Cons_iff)
  from Cons.IH [OF rest [symmetric]] obtain us2 vs2 where
    "vs' = us2 @ vs2" "filter Q us2 = ys" "filter Q vs2 = zs" by blast
  with xs us' y show ?case
    by (intro exI [of _ "us' @ y # us2"] exI [of _ vs2]) simp
qed

subsection \<open>The store\<close>

lemma fetch_one_None: "fetch_one rows = None \<longleftrightarrow> rows = []"
  by (simp add: fetch_one_def split: list.splits)

lemma fetch_one_Some: "fetch_one rows = Some r \<longleftrightarrow> (\<exists>rest. rows = r # rest)"
  by (simp add: fetch_one_def split: list.splits)

lemma valid_store_empty: "valid_store []"
  by (simp add: valid_store_def)

lemma enqueue_valid_store:
  assumes "valid_store db" and "enqueue db job = Inr (j, db')"
  shows "valid_store db' \<and> j = job \<and> db' = db @ [job]"
  using assms by (auto simp: enqueue_def valid_store_def split: if_splits)

lemma update_job_valid:
  assumes "valid_store db" and "r \<in> set db" and "job_id job = job_id r"
    and "command job = command r"
  shows "update_job db job =
           Inr (map (\<lambda>x. if job_id x = job_id r then set_columns job x else x) db)"
  using assms by (auto simp: update_job_def valid_store_def image_iff)

lemma update_job_valid_store:
  assumes "valid_store db" and "update_job db job = Inr db'"
  shows "valid_store db'"
proof -
  let ?f = "\<lambda>r. if job_id r = job_id job then set_columns job r else r"
  from assms(2) have db': "db' = map ?f db"
    and ok: "job_id job \<notin> job_id ` set db \<or> command job \<noteq> None"
    by (auto simp: update_job_def split: if_splits)
  have ids: "map job_id db' = map job_id db"
    unfolding db' by (induction db) (simp_all add: set_columns_def)
  have "command (?f r) \<noteq> None" if "r \<in> set db" for r
  proof (cases "job_id r = job_id job")
    case True
    with that have "job_id job \<in> job_id ` set db" by (metis imageI)
    with ok True show ?thesis by (simp add: set_columns_def)
  next
    case False
    moreover from that assms(1) have "command r \<noteq> None"
      unfolding valid_store_def by (metis imageI)
    ultimately show ?thesis by simp
  qed
  then have cmd: "\<forall>r\<in>set db. command (?f r) \<noteq> None" by blast
  have "None \<notin> command ` set db'"
  proof
    assume "None \<in> command ` set db'"
    then obtain x where x: "x \<in> set db'" "command x = None" by (metis imageE)
    from x(1) obtain r where r: "r \<in> set db" and xr: "x = ?f r" unfolding db' by auto
    from cmd r have ne: "command (?f r) \<noteq> None" by (rule bspec)
    from x(2) have "command (?f r) = None" unfolding xr .
    with ne show False by (rule notE)
  qed
  with ids assms(1) show ?thesis by (simp add: valid_store_def)
qed

lemma filter_by_id:
  assumes "distinct (map job_id db)" and "r \<in> set db"
  shows "filter (\<lambda>x. job_id x = job_id r) db = [r]"
  using assms
proof (induction db)
  case Nil
  then show ?case by simp
next
  case (Cons a db)
  show ?case
  proof (cases "a = r")
    case True
    with Cons.prems have "job_id r \<notin> job_id ` set db" by simp
    then have "\<forall>x\<in>set db. job_id x \<noteq> job_id r" by (metis imageI)
    then have "filter (\<lambda>x. job_id x = job_id r) db = []" by (simp add: filter_empty_conv)
    with True show ?thesis by simp
  next
    case False
    with Cons.prems have "r \<in> set db" by simp
    moreover from this Cons.prems have "job_id a \<noteq> job_id r"
      by (metis distinct.simps(2) imageI list.simps(9) set_map)
    ultimately show ?thesis using Cons by simp
  qed
qed

lemma get_job_found:
  assumes "valid_store db" and "r \<in> set db"
  shows "get_job P db (job_id r) = Some r"
  using filter_by_id [of db r] assms
  by (simp add: get_job_def fetch_one_def valid_store_def from_db_row_ident)

lemma get_job_missing:
  assumes "jid \<notin> job_id ` set db"
  shows "get_job P db jid = None"
proof -
  have "filter (\<lambda>r. job_id r = jid) db = []"
    using assms by (auto simp: filter_empty_conv)
  then show ?thesis by (simp add: get_job_def fetch_one_def)
qed

text \<open>
  C10. For every store and every job \<open>j\<close> whose id no row has, \<^verbatim>\<open>update_job(j)\<close>
  returns without an error and leaves the table as it was.
\<close>

theorem update_job_unknown_id:
  assumes "job_id j \<notin> job_id ` set db"
  shows "update_job db j = Inr db"
proof -
  have "job_id x \<noteq> job_id j" if "x \<in> set db" for x
    using that assms by (metis imageI)
  then have "map (\<lambda>r. if job_id r = job_id j then set_columns j r else r) db = db"
    by (intro map_idI) simp
  with assms show ?thesis by (simp add: update_job_def)
qed

theorem update_job_unknown_id_witness:
  "job_id (job_ex ''zzz'' 1 1) \<notin> job_id ` set db_ex \<and>
   update_job db_ex (job_ex ''zzz'' 1 1) = Inr db_ex"
proof -
  have h: "job_id (job_ex ''zzz'' 1 1) \<notin> job_id ` set db_ex"
    by (simp add: db_ex_def job_ex_def)
  from h update_job_unknown_id [OF h] show ?thesis by (rule conjI)
qed

subsection \<open>Claiming the next job\<close>

lemma claim_selection:
  fixes db :: "('id, 'ts::linorder) Job list"
  assumes "fetch_one (order_by claim_order (filter (eligible now) db)) = Some r"
  shows "\<exists>pre post. db = pre @ r # post \<and> eligible now r \<and>
           (\<forall>x\<in>set pre. eligible now x \<longrightarrow> \<not> claim_order x r) \<and>
           (\<forall>x\<in>set post. eligible now x \<longrightarrow> claim_order r x)"
proof -
  from assms obtain rest where "order_by claim_order (filter (eligible now) db) = r # rest"
    by (auto simp: fetch_one_Some)
  from order_by_head [OF total_preorder_claim_order this] obtain pre' post' where
    f: "filter (eligible now) db = pre' @ r # post'" and
    pre': "\<forall>x\<in>set pre'. \<not> claim_order x r" and post': "\<forall>x\<in>set post'. claim_order r x"
    by blast
  from f obtain us vs where db: "db = us @ vs" and us: "filter (eligible now) us = pre'"
    and vs: "filter (eligible now) vs = r # post'"
    using filter_eq_appendD by blast
  from vs obtain us2 vs2 where vs': "vs = us2 @ r # vs2"
    and us2: "\<forall>u\<in>set us2. \<not> eligible now u"
    and r: "eligible now r" and vs2: "post' = filter (eligible now) vs2"
    by (auto simp: filter_eq_Cons_iff)
  have "db = (us @ us2) @ r # vs2" using db vs' by simp
  moreover have "\<forall>x\<in>set (us @ us2). eligible now x \<longrightarrow> \<not> claim_order x r"
    using us us2 pre' by auto
  moreover have "\<forall>x\<in>set vs2. eligible now x \<longrightarrow> claim_order r x"
    using vs2 post' by auto
  ultimately show ?thesis using r by blast
qed

text \<open>
  C1, as amended. On every store that meets the table's constraints, \<^verbatim>\<open>get_next_job\<close>
  returns without an error. It returns null exactly when no row is eligible at the
  current time. Otherwise the job it returns is a row \<open>r\<close> of the store, marked as
  processing, such that \<open>r\<close> is eligible (state pending or failed, \<open>next_retry_at\<close> null
  or \<open>\<le> now\<close>, \<open>run_at\<close> null or \<open>\<le> now\<close>) and is maximal among the eligible rows
  under priority descending, then \<open>created_at\<close> ascending; among eligible rows that tie
  on both keys it is the one inserted first (every eligible row stored before \<open>r\<close> has
  a lower priority, or the same priority and a later \<open>created_at\<close>): the id plays no
  part.
\<close>

theorem get_next_job_selects:
  fixes db :: "('id, 'ts::linorder) Job list"
  assumes "valid_store db"
  shows "\<exists>res db'. get_next_job P db = Inr (res, db') \<and>
     (case res of
        None \<Rightarrow> filter (eligible (utcnow P 0)) db = []
      | Some j \<Rightarrow>
          (\<exists>pre r post. db = pre @ r # post \<and> j = mark_processing (tick P) r \<and>
             eligible (utcnow P 0) r \<and>
             (\<forall>x\<in>set db. eligible (utcnow P 0) x \<longrightarrow>
                priority x < priority r \<or>
                (priority x = priority r \<and> created_at r \<le> created_at x)) \<and>
             (\<forall>x\<in>set pre. eligible (utcnow P 0) x \<longrightarrow>
                priority x < priority r \<or>
                (priority x = priority r \<and> created_at r < created_at x))))"
proof (cases "fetch_one (order_by claim_order (filter (eligible (utcnow P 0)) db))")
  case None
  then have "filter (eligible (utcnow P 0)) db = []"
    using mset_order_by [of claim_order "filter (eligible (utcnow P 0)) db"]
    by (simp add: fetch_one_None)
  with None show ?thesis by (simp add: get_next_job_def)
next
  case (Some r)
  from claim_selection [OF Some] obtain pre post where
    db: "db = pre @ r # post" and el: "eligible (utcnow P 0) r" and
    pre: "\<forall>x\<in>set pre. eligible (utcnow P 0) x \<longrightarrow> \<not> claim_order x r" and
    post: "\<forall>x\<in>set post. eligible (utcnow P 0) x \<longrightarrow> claim_order r x"
    by blast
  let ?j = "mark_processing (tick P) r"
  have "r \<in> set db" using db by simp
  then have upd: "update_job db ?j =
      Inr (map (\<lambda>x. if job_id x = job_id r then set_columns ?j x else x) db)"
    using assms by (intro update_job_valid) (simp_all add: mark_processing_def)
  have run: "get_next_job P db =
      Inr (Some ?j, map (\<lambda>x. if job_id x = job_id r then set_columns ?j x else x) db)"
    using Some upd by (simp add: get_next_job_def from_db_row_ident mark_processing_def)
  have best: "\<forall>x\<in>set db. eligible (utcnow P 0) x \<longrightarrow>
      priority x < priority r \<or> (priority x = priority r \<and> created_at r \<le> created_at x)"
    using db pre post by (auto simp: claim_order_def)
  have first: "\<forall>x\<in>set pre. eligible (utcnow P 0) x \<longrightarrow>
      priority x < priority r \<or> (priority x = priority r \<and> created_at r < created_at x)"
    using pre by (auto simp: claim_order_def)
  show ?thesis
    unfolding run using db el best first by auto
qed

lemma valid_db_ex: "valid_store db_ex"
  by (simp add: valid_store_def db_ex_def job_ex_def)

theorem get_next_job_selects_witness:
  "valid_store db_ex \<and>
   (\<exists>res db'. get_next_job P_ok db_ex = Inr (res, db') \<and>
     (case res of
        None \<Rightarrow> filter (eligible (utcnow P_ok 0)) db_ex = []
      | Some j \<Rightarrow>
          (\<exists>pre r post. db_ex = pre @ r # post \<and> j = mark_processing (tick P_ok) r \<and>
             eligible (utcnow P_ok 0) r \<and>
             (\<forall>x\<in>set db_ex. eligible (utcnow P_ok 0) x \<longrightarrow>
                priority x < priority r \<or>
                (priority x = priority r \<and> created_at r \<le> created_at x)) \<and>
             (\<forall>x\<in>set pre. eligible (utcnow P_ok 0) x \<longrightarrow>
                priority x < priority r \<or>
                (priority x = priority r \<and> created_at r < created_at x)))))"
  using valid_db_ex get_next_job_selects [OF valid_db_ex, of P_ok] by (rule conjI)

text \<open>An example: the claim skips the dead job and the job scheduled for later, and
  takes the job of priority 5 before the older job of priority 0.\<close>

lemma get_next_job_db_ex:
  "get_next_job P_ok db_ex =
     Inr (Some ((job_ex ''high'' 5 200)
                  \<lparr>state := Processing, started_at := Some 1001, updated_at := 1001\<rparr>),
          [job_ex ''low'' 0 100,
           (job_ex ''late'' 5 300)\<lparr>run_at := Some 2000\<rparr>,
           (job_ex ''high'' 5 200)
             \<lparr>state := Processing, started_at := Some 1001, updated_at := 1001\<rparr>,
           (job_ex ''gone'' 9 50)
             \<lparr>state := Dead, attempts := 3, error_message := Some ''boom''\<rparr>])"
  by (simp add: get_next_job_def fetch_one_def eligible_def claim_order_def update_job_def
      set_columns_def mark_processing_def from_db_row_ident tick_def Let_def
      P_ok_def job_ex_def db_ex_def)

text \<open>
  The claim as first stated breaks ties on \<open>created_at\<close> by ascending id. Two pending
  jobs with ids \<^verbatim>\<open>b\<close> and \<^verbatim>\<open>a\<close>, of equal priority and \<open>created_at\<close>, \<^verbatim>\<open>b\<close> inserted
  first: \<^verbatim>\<open>get_next_job\<close> returns \<^verbatim>\<open>b\<close>, although \<^verbatim>\<open>a\<close> is eligible and has the smaller
  id.
\<close>

theorem get_next_job_tie_counterexample:
  "get_next_job P_ok db_tie =
     Inr (Some ((job_ex ''b'' 0 100)
                  \<lparr>state := Processing, started_at := Some 1001, updated_at := 1001\<rparr>),
          [(job_ex ''b'' 0 100)
             \<lparr>state := Processing, started_at := Some 1001, updated_at := 1001\<rparr>,
           job_ex ''a'' 0 100]) \<and>
   job_ex ''a'' 0 100 \<in> set db_tie \<and>
   eligible (utcnow P_ok 0) (job_ex ''a'' 0 100) \<and>
   priority (job_ex ''a'' 0 100) = priority (job_ex ''b'' 0 100) \<and>
   created_at (job_ex ''a'' 0 100) = created_at (job_ex ''b'' 0 100) \<and>
   job_id (job_ex ''a'' 0 100) < job_id (job_ex ''b'' 0 100)"
  by (simp add: get_next_job_def fetch_one_def eligible_def claim_order_def update_job_def
      set_columns_def mark_processing_def from_db_row_ident tick_def Let_def
      P_ok_def job_ex_def db_tie_def)

subsection \<open>Retrying a job of the dead-letter queue\<close>

text \<open>
  C4. On a store that meets the table's constraints: \<^verbatim>\<open>retry_dlq_job(id)\<close> on a stored
  job whose state is dead returns success, and the new store differs from the old one
  in that job only, which has state pending, \<open>attempts = 0\<close>, \<open>next_retry_at\<close> and
  \<open>error_message\<close> null and a new \<open>updated_at\<close>; its id, command, \<open>created_at\<close>,
  \<open>started_at\<close>, \<open>completed_at\<close> and every other field are as before. On an id that
  no row has, or on a job that is not dead, it returns failure and the store is
  unchanged.
\<close>

theorem retry_dlq_job_spec:
  assumes "valid_store db"
  shows "(\<forall>r. r \<in> set db \<and> job_id r = jid \<and> state r = Dead \<longrightarrow>
            retry_dlq_job P db jid =
              Inr (True,
                   map (\<lambda>x. if x = r
                             then r\<lparr>state := Pending, attempts := 0, next_retry_at := None,
                                    error_message := None, updated_at := utcnow P 0\<rparr>
                             else x) db)) \<and>
         (jid \<notin> job_id ` set db \<or> (\<exists>r\<in>set db. job_id r = jid \<and> state r \<noteq> Dead) \<longrightarrow>
            retry_dlq_job P db jid = Inr (False, db))"
proof (intro conjI allI impI)
  fix r
  assume r: "r \<in> set db \<and> job_id r = jid \<and> state r = Dead"
  let ?job = "r\<lparr>state := Pending, attempts := 0, next_retry_at := None,
                 error_message := None, updated_at := utcnow P 0\<rparr>"
  have found: "get_job P db jid = Some r"
    using get_job_found [OF assms, of r P] r by simp
  have same: "x = r" if "x \<in> set db" "job_id x = job_id r" for x
    using that r assms by (auto simp: valid_store_def distinct_map inj_on_def)
  have cols: "set_columns ?job r = ?job"
    by (simp add: set_columns_def)
  have "update_job db ?job =
          Inr (map (\<lambda>x. if job_id x = job_id r then set_columns ?job x else x) db)"
    using assms r by (intro update_job_valid) simp_all
  also have "map (\<lambda>x. if job_id x = job_id r then set_columns ?job x else x) db =
             map (\<lambda>x. if x = r then ?job else x) db"
    using same cols by (intro map_cong) auto
  finally show "retry_dlq_job P db jid = Inr (True, map (\<lambda>x. if x = r then ?job else x) db)"
    using found r by (simp add: retry_dlq_job_def)
next
  assume "jid \<notin> job_id ` set db \<or> (\<exists>r\<in>set db. job_id r = jid \<and> state r \<noteq> Dead)"
  then show "retry_dlq_job P db jid = Inr (False, db)"
  proof
    assume "jid \<notin> job_id ` set db"
    then show ?thesis by (simp add: retry_dlq_job_def get_job_missing)
  next
    assume "\<exists>r\<in>set db. job_id r = jid \<and> state r \<noteq> Dead"
    then obtain r where r: "r \<in> set db" "job_id r = jid" "state r \<noteq> Dead" by blast
    then have "get_job P db jid = Some r"
      using get_job_found [OF assms, of r P] by simp
    with r show ?thesis by (simp add: retry_dlq_job_def)
  qed
qed

theorem retry_dlq_job_spec_witness:
  "valid_store db_ex \<and>
   retry_dlq_job P_ok db_ex ''gone'' =
     Inr (True,
          [job_ex ''low'' 0 100,
           (job_ex ''late'' 5 300)\<lparr>run_at := Some 2000\<rparr>,
           job_ex ''high'' 5 200,
           (job_ex ''gone'' 9 50)\<lparr>updated_at := 1000\<rparr>]) \<and>
   retry_dlq_job P_ok db_ex ''low'' = Inr (False, db_ex) \<and>
   retry_dlq_job P_ok db_ex ''nope'' = Inr (False, db_ex)"
proof -
  let ?gone = "(job_ex ''gone'' 9 50)
                 \<lparr>state := Dead, attempts := 3, error_message := Some ''boom''\<rparr>"
  note spec = retry_dlq_job_spec [OF valid_db_ex]
  have "?gone \<in> set db_ex \<and> job_id ?gone = ''gone'' \<and> state ?gone = Dead"
    by (simp add: db_ex_def job_ex_def)
  with spec [of "''gone''" P_ok] have
    "retry_dlq_job P_ok db_ex ''gone'' =
       Inr (True,
            map (\<lambda>x. if x = ?gone
                      then ?gone\<lparr>state := Pending, attempts := 0, next_retry_at := None,
                                  error_message := None, updated_at := utcnow P_ok 0\<rparr>
                      else x) db_ex)"
    by blast
  then have gone: "retry_dlq_job P_ok db_ex ''gone'' =
     Inr (True,
          [job_ex ''low'' 0 100,
           (job_ex ''late'' 5 300)\<lparr>run_at := Some 2000\<rparr>,
           job_ex ''high'' 5 200,
           (job_ex ''gone'' 9 50)\<lparr>updated_at := 1000\<rparr>])"
    by (simp add: db_ex_def job_ex_def P_ok_def)
  have "\<exists>r\<in>set db_ex. job_id r = ''low'' \<and> state r \<noteq> Dead"
    by (simp add: db_ex_def job_ex_def)
  with spec [of "''low''" P_ok] have low: "retry_dlq_job P_ok db_ex ''low'' = Inr (False, db_ex)"
    by blast
  have "''nope'' \<notin> job_id ` set db_ex"
    by (simp add: db_ex_def job_ex_def)
  with spec [of "''nope''" P_ok]
  have nope: "retry_dlq_job P_ok db_ex ''nope'' = Inr (False, db_ex)"
    by blast
  from valid_db_ex gone low nope show ?thesis by simp
qed

subsection \<open>Listing jobs\<close>

lemma sorted_created_desc_same_priority:
  assumes "sorted_wrt created_desc xs" and "\<forall>x\<in>set xs. priority x = p"
  shows "sorted_wrt list_order xs"
  using assms(1)
proof (rule sorted_wrt_mono_rel [rotated])
  fix x y
  assume "x \<in> set xs" "y \<in> set xs" "created_desc x y"
  with assms(2) show "list_order x y" by (simp add: list_order_def created_desc_def)
qed

lemma list_jobs_rows:
  "list_jobs P db st pr =
     (case (st, pr) of
        (Some s, Some p) \<Rightarrow>
          order_by list_order (filter (\<lambda>r. state r = s \<and> priority r = p) db)
      | (Some s, None) \<Rightarrow> order_by list_order (filter (\<lambda>r. state r = s) db)
      | (None, Some p) \<Rightarrow> order_by created_desc (filter (\<lambda>r. priority r = p) db)
      | (None, None) \<Rightarrow> order_by list_order db)"
  by (simp add: list_jobs_def map_from_db_row)

lemma list_jobs_mset:
  "mset (list_jobs P db st pr) =
     mset (filter (\<lambda>r. (case st of None \<Rightarrow> True | Some s \<Rightarrow> state r = s) \<and>
                        (case pr of None \<Rightarrow> True | Some p \<Rightarrow> priority r = p)) db)"
  by (cases st; cases pr) (simp_all add: list_jobs_rows mset_order_by)

lemma list_jobs_sorted:
  fixes db :: "('id, 'ts::linorder) Job list"
  shows "sorted_wrt list_order (list_jobs P db st pr)"
proof (cases st)
  case None
  show ?thesis
  proof (cases pr)
    case None
    with \<open>st = None\<close> show ?thesis
      by (simp add: list_jobs_rows sorted_order_by [OF total_preorder_list_order])
  next
    case (Some p)
    let ?rows = "order_by created_desc (filter (\<lambda>r. priority r = p) db)"
    have "sorted_wrt created_desc ?rows"
      by (rule sorted_order_by [OF total_preorder_created_desc])
    moreover have "\<forall>x\<in>set ?rows. priority x = p"
      by (simp add: set_order_by)
    ultimately have "sorted_wrt list_order ?rows"
      by (rule sorted_created_desc_same_priority)
    with Some \<open>st = None\<close> show ?thesis by (simp add: list_jobs_rows)
  qed
next
  case (Some s)
  then show ?thesis
    by (cases pr) (simp_all add: list_jobs_rows sorted_order_by [OF total_preorder_list_order])
qed

text \<open>
  C9. For every store and every combination of the optional state and priority
  filters, \<^verbatim>\<open>list_jobs\<close> returns exactly the jobs that match the filters (each stored
  job that matches, once), ordered by priority descending and, within equal priority,
  by \<open>created_at\<close> descending.
\<close>

theorem list_jobs_spec:
  fixes db :: "('id, 'ts::linorder) Job list"
  shows "mset (list_jobs P db st pr) =
           mset (filter (\<lambda>r. (case st of None \<Rightarrow> True | Some s \<Rightarrow> state r = s) \<and>
                              (case pr of None \<Rightarrow> True | Some p \<Rightarrow> priority r = p)) db) \<and>
         sorted_wrt (\<lambda>a b. priority a > priority b \<or>
                           (priority a = priority b \<and> created_at a \<ge> created_at b))
           (list_jobs P db st pr)"
proof -
  have "sorted_wrt (\<lambda>a b. priority a > priority b \<or>
                           (priority a = priority b \<and> created_at a \<ge> created_at b))
           (list_jobs P db st pr)"
    using list_jobs_sorted [of P db st pr]
    by (rule sorted_wrt_mono_rel [rotated]) (simp add: list_order_def)
  with list_jobs_mset [of P db st pr] show ?thesis by blast
qed

text \<open>An example: the dead-letter queue of \<open>db_ex\<close>, and its jobs of priority 5.\<close>

lemma list_jobs_db_ex:
  "list_dlq P_ok db_ex =
     [(job_ex ''gone'' 9 50)\<lparr>state := Dead, attempts := 3, error_message := Some ''boom''\<rparr>] \<and>
   list_jobs P_ok db_ex None (Some 5) =
     [(job_ex ''late'' 5 300)\<lparr>run_at := Some 2000\<rparr>, job_ex ''high'' 5 200]"
  by (simp add: list_dlq_def list_jobs_rows list_order_def created_desc_def db_ex_def job_ex_def)

subsection \<open>Metrics\<close>

text \<open>
  C8. For every store, \<^verbatim>\<open>get_metrics\<close> returns a \<open>success_rate\<close> of (number of
  completed jobs / number of jobs) * 100, and 0 when the store holds no job; and an
  \<open>avg_execution_time\<close> that is the mean of the non-null \<open>execution_time\<close> values, and
  0 when no job has one.
\<close>

theorem get_metrics_spec:
  "success_rate (get_metrics P db) =
     (if db = [] then 0
      else real (length (filter (\<lambda>r. state r = Completed) db)) / real (length db) * 100) \<and>
   avg_execution_time (get_metrics P db) =
     (if filter (\<lambda>t. t \<noteq> None) (map execution_time db) = [] then 0
      else sum_list (map the (filter (\<lambda>t. t \<noteq> None) (map execution_time db))) /
           real (length (filter (\<lambda>t. t \<noteq> None) (map execution_time db))))"
proof -
  let ?opts = "filter (\<lambda>t. t \<noteq> None) (map execution_time db)"
  have mf: "List.map_filter execution_time db = map the ?opts"
    by (induction db) (auto simp: List.map_filter_simps split: option.splits)
  have len: "length (List.map_filter execution_time db) = length ?opts"
    unfolding mf by simp
  have emp: "(List.map_filter execution_time db = []) = (?opts = [])"
    unfolding mf by simp
  have rate: "success_rate (get_metrics P db) =
     (if db = [] then 0
      else real (length (filter (\<lambda>r. state r = Completed) db)) / real (length db) * 100)"
    by (simp add: get_metrics_def Let_def)
  have "avg_execution_time (get_metrics P db) =
     (if List.map_filter execution_time db = [] then 0
      else sum_list (List.map_filter execution_time db) /
           real (length (List.map_filter execution_time db)))"
    by (simp add: get_metrics_def Let_def sql_avg_def)
  then have "avg_execution_time (get_metrics P db) =
     (if ?opts = [] then 0 else sum_list (map the ?opts) / real (length ?opts))"
    unfolding emp len unfolding mf .
  with rate show ?thesis by blast
qed

subsection \<open>The end of an attempt\<close>

lemma tick_simps [simp]:
  "utcnow (tick P) k = utcnow P (Suc k)"
  "time (tick P) = time P"
  "add_seconds (tick P) = add_seconds P"
  "total_seconds (tick P) = total_seconds P"
  by (simp_all add: tick_def)





lemma init_defaults_empty_max_retries: "init_defaults Map.empty ''max_retries'' = Some ''3''"
  by (simp add: init_defaults_def DEFAULTS_def)




subsection \<open>The life of one job\<close>












subsection \<open>The \<^verbatim>\<open>enqueue\<close> command\<close>

text \<open>Invalid JSON, a request with neither JSON nor a command (an empty \<^verbatim>\<open>--command\<close>
  counts as none), and a JSON object without the key \<^verbatim>\<open>command\<close> are rejected, and the
  database is left as it was.\<close>

lemma cli_enqueue_invalid_json:
  assumes "s \<noteq> []" and "json_loads P s = None"
  shows "cli_enqueue P db (Some s) cmd jid mr pr tmo ra = (InvalidJSON, db)"
  using assms by (cases s) (simp_all add: cli_enqueue_def)

lemma cli_enqueue_nothing_given:
  assumes "job_data = None \<or> job_data = Some []" and "cmd = None \<or> cmd = Some []"
  shows "cli_enqueue P db job_data cmd jid mr pr tmo ra = (MustProvide, db)"
  using assms by (auto simp: cli_enqueue_def)

lemma cli_enqueue_no_command_key:
  assumes "s \<noteq> []" and "json_loads P s = Some (JObj d)" and "d_command d = None"
  shows "cli_enqueue P db (Some s) cmd jid mr pr tmo ra = (CommandRequired, db)"
  using assms by (cases s) (simp_all add: cli_enqueue_def enqueue_data_def py_in_def has_key_def)

text \<open>Whatever the request, the \<^verbatim>\<open>jobs\<close> table changes only when the command reports
  an enqueued job.\<close>

lemma cli_enqueue_jobs_unchanged_unless_enqueued:
  assumes "cli_enqueue P db job_data cmd jid mr pr tmo ra = (out, db')"
    and "\<forall>j. out \<noteq> JobEnqueued j"
  shows "jobs db' = jobs db"
  using assms
  by (auto simp: cli_enqueue_def enqueue_data_def Let_def
      split: option.splits list.splits sum.splits bool.splits json.splits if_splits)

text \<open>
  C7. The request \<^verbatim>\<open>enqueue '{"command": ""}'\<close> on an empty database: the JSON has the
  key \<^verbatim>\<open>command\<close>, the command checks no more than that, and a pending job whose
  command is the empty text is inserted into the \<^verbatim>\<open>jobs\<close> table. (The same empty
  command given as \<^verbatim>\<open>--command ""\<close> is rejected, see \<open>cli_enqueue_nothing_given\<close>.)
\<close>

theorem cli_enqueue_empty_command:
  "cli_enqueue P_ok db_empty (Some empty_command_json) None None None 0 300 None =
     (JobEnqueued job_empty_command,
      \<lparr>jobs = [job_empty_command], config = init_defaults Map.empty\<rparr>) \<and>
   command job_empty_command = Some []"
  by (simp add: cli_enqueue_def enqueue_data_def py_in_def has_key_def enqueue_def
      from_dict_def Job_init_def dict_get_def dict_get_default_def Config_get_def
      int_of_value_def init_defaults_empty_max_retries empty_dict_def empty_command_json_def
      Let_def P_ok_def db_empty_def job_empty_command_def)

end
